theory Spec2Isabelle
  imports Main "HOL-Library.Word"
begin

unbundle bit_operations_syntax

section \<open>managerui: the keygrabber and its dispatch loop (src/main.c)\<close>

subsection \<open>Constants of the platform headers\<close>

text \<open>
  The program includes \<^verbatim>\<open>errno.h\<close>, \<^verbatim>\<open>stdlib.h\<close> and \<^verbatim>\<open>linux/input.h\<close>. The constants
  it takes from them are not part of the repository; they are given here with their values
  on Linux (where \<^verbatim>\<open>EWOULDBLOCK\<close> is the same number as \<^verbatim>\<open>EAGAIN\<close>), and
  \<^verbatim>\<open>sizeof(struct input_event)\<close> with its value on a 64-bit Linux (a 16-byte
  \<^verbatim>\<open>struct timeval\<close>, two 16-bit fields and one 32-bit field).
\<close>

type_synonym uint32_t = "32 word"

definition EINTR :: int where "EINTR = 4"
definition EAGAIN :: int where "EAGAIN = 11"
definition EWOULDBLOCK :: int where "EWOULDBLOCK = 11"
definition ENODEV :: int where "ENODEV = 19"

definition EXIT_SUCCESS :: int where "EXIT_SUCCESS = 0"
definition EXIT_FAILURE :: int where "EXIT_FAILURE = 1"

definition EV_SYN :: "16 word" where "EV_SYN = 0x00"
definition EV_KEY :: "16 word" where "EV_KEY = 0x01"

definition sizeof_input_event :: int where "sizeof_input_event = 24"

text \<open>
  \<^verbatim>\<open>struct input_event\<close>: the three fields the program reads. \<^verbatim>\<open>type\<close> and
  \<^verbatim>\<open>code\<close> are \<^verbatim>\<open>__u16\<close>, \<^verbatim>\<open>value\<close> is \<^verbatim>\<open>__s32\<close> (a 32-bit word, read as
  two's complement by \<open>sint\<close>). The timestamp is never read by the program and is left out.
\<close>

record input_event =
  ev_type :: "16 word"
  ev_code :: "16 word"
  ev_value :: "32 word"

subsection \<open>Flags and macros (lines 63 to 73)\<close>

definition EV_ERROR :: uint32_t where "EV_ERROR = 0x00010000"
definition EV_UP :: uint32_t where "EV_UP = 0x00020000"
definition EV_HOLD :: uint32_t where "EV_HOLD = 0x00040000"

definition EV_EBLOCK :: uint32_t where "EV_EBLOCK = 0x0001"
definition EV_EFILE :: uint32_t where "EV_EFILE = 0x0002"

definition EV_HASFLAG :: "uint32_t \<Rightarrow> uint32_t \<Rightarrow> uint32_t" where
  "EV_HASFLAG code flag = code AND flag"

definition EV_GETCODE :: "uint32_t \<Rightarrow> uint32_t" where
  "EV_GETCODE code = code AND 0x0000ffff"

definition EV_GETERROR :: "uint32_t \<Rightarrow> uint32_t" where
  "EV_GETERROR code = EV_GETCODE code"

definition EV_FAIL :: "uint32_t \<Rightarrow> uint32_t" where
  "EV_FAIL code = EV_HASFLAG code EV_ERROR"

subsection \<open>The process and its environment\<close>

text \<open>
  The calls the program makes to the operating system are recorded, in order, in a trace.
  The table of open descriptors is kept beside it, so that a \<^verbatim>\<open>close\<close> of a descriptor
  that is no longer open can be told from one that releases it: \<open>SysClose fd 0\<close> is a
  \<^verbatim>\<open>close\<close> that released \<open>fd\<close>, \<open>SysClose fd (-1)\<close> one that found it already
  released (\<^verbatim>\<open>EBADF\<close>). The return values of \<^verbatim>\<open>open\<close> and \<^verbatim>\<open>daemon\<close> and the
  results of the reads are given by the environment. \<^verbatim>\<open>daemon\<close> is one call: the process
  followed after it is the one in which it returned. The return values of \<^verbatim>\<open>close\<close>,
  \<^verbatim>\<open>system\<close> and \<^verbatim>\<open>fprintf\<close> are not looked at by the program.
\<close>

datatype syscall =
    SysOpen string int
  | SysDaemon int
  | SysRead int int
  | SysClose int int
  | SysSystem string
  | SysStderr string

record world =
  open_fds :: "int set"
  trace :: "syscall list"

text \<open>
  What one call of \<^verbatim>\<open>read(fd, &ev, sizeof(ev))\<close> gives back to the program: the return
  value, the value of \<^verbatim>\<open>errno\<close> the program sees after the call, and the contents of the
  local \<^verbatim>\<open>ev\<close> after the call (for a read of fewer bytes than the record, whatever the
  bytes written and the bytes left untouched amount to). \<^verbatim>\<open>read\<close> sets \<^verbatim>\<open>errno\<close> only
  when it fails, with a negative return value; after any other read \<open>rr_errno\<close> is the
  value an earlier call left there.
\<close>

record read_result =
  rr_ret :: int
  rr_errno :: int
  rr_ev :: input_event

definition sys_open :: "string \<Rightarrow> int \<Rightarrow> world \<Rightarrow> int \<times> world" where
  "sys_open device ret w =
     (ret, w\<lparr>open_fds := (if 0 \<le> ret then insert ret (open_fds w) else open_fds w),
             trace := trace w @ [SysOpen device ret]\<rparr>)"

definition sys_read :: "int \<Rightarrow> read_result \<Rightarrow> world \<Rightarrow> world" where
  "sys_read fd r w = w\<lparr>trace := trace w @ [SysRead fd (rr_ret r)]\<rparr>"

definition sys_close :: "int \<Rightarrow> world \<Rightarrow> world" where
  "sys_close fd w =
     w\<lparr>open_fds := open_fds w - {fd},
       trace := trace w @ [SysClose fd (if fd \<in> open_fds w then 0 else - 1)]\<rparr>"

definition sys_system :: "string \<Rightarrow> world \<Rightarrow> world" where
  "sys_system cmd w = w\<lparr>trace := trace w @ [SysSystem cmd]\<rparr>"

definition sys_daemon :: "int \<Rightarrow> world \<Rightarrow> int \<times> world" where
  "sys_daemon ret w = (ret, w\<lparr>trace := trace w @ [SysDaemon ret]\<rparr>)"

definition fprintf_stderr :: "string \<Rightarrow> world \<Rightarrow> world" where
  "fprintf_stderr msg w = w\<lparr>trace := trace w @ [SysStderr msg]\<rparr>"

subsection \<open>The keygrabber (lines 33 to 108)\<close>

definition ev_open :: "string \<Rightarrow> int \<Rightarrow> world \<Rightarrow> int \<times> world" where
  "ev_open device ret w = sys_open device ret w"

definition ev_read :: "int \<Rightarrow> read_result \<Rightarrow> world \<Rightarrow> uint32_t \<times> world" where
  "ev_read fd r w =
     (let w1 = sys_read fd r w; ev = rr_ev r in
      if rr_ret r < 1 then
        (if rr_errno r = EINTR \<or> rr_errno r = EAGAIN \<or> rr_errno r = EWOULDBLOCK
         then (EV_EBLOCK OR EV_ERROR, w1)
         else (EV_EFILE OR EV_ERROR, sys_close fd w1))
      else if ev_type ev = EV_KEY then
        (if ev_value ev = 1 then (ucast (ev_code ev), w1)
         else if ev_value ev = 2 then (ucast (ev_code ev) OR EV_HOLD, w1)
         else (ucast (ev_code ev) OR EV_UP, w1))
      else (EV_EBLOCK OR EV_ERROR, w1))"

text \<open>
  The reads on which \<open>ev_read\<close> reaches lines 84 and 85: the test of line 79 holds and
  the test of line 80 does not.
\<close>

definition fatal_read :: "read_result \<Rightarrow> bool" where
  "fatal_read r \<longleftrightarrow>
     rr_ret r < 1 \<and> \<not> (rr_errno r = EINTR \<or> rr_errno r = EAGAIN \<or> rr_errno r = EWOULDBLOCK)"

definition ev_close :: "int \<Rightarrow> world \<Rightarrow> world" where
  "ev_close fd w = sys_close fd w"

subsection \<open>The dispatch loop and \<^verbatim>\<open>main\<close> (lines 110 to 155)\<close>

datatype loop_state = Running | Terminated

text \<open>
  The body of the loop after the call of \<open>ev_read\<close> (lines 133 to 150): \<^verbatim>\<open>continue\<close>
  and the end of the \<^verbatim>\<open>switch\<close> leave the loop \<open>Running\<close>, \<^verbatim>\<open>break\<close> makes it
  \<open>Terminated\<close>.
\<close>

definition handle_event :: "uint32_t \<Rightarrow> world \<Rightarrow> loop_state \<times> world" where
  "handle_event ev w =
     (if EV_FAIL ev \<noteq> 0 then
        (if EV_GETERROR ev = EV_EBLOCK then (Running, w) else (Terminated, w))
      else if EV_GETCODE ev = 225 then
        (if EV_HASFLAG ev EV_UP \<noteq> 0 then (Running, sys_system ''setbacklight %+10'' w)
         else (Running, w))
      else if EV_GETCODE ev = 224 then
        (if EV_HASFLAG ev EV_UP \<noteq> 0 then (Running, sys_system ''setbacklight %-10'' w)
         else (Running, w))
      else (Running, w))"

definition iteration :: "int \<Rightarrow> read_result \<Rightarrow> world \<Rightarrow> loop_state \<times> world" where
  "iteration keygrabber r w =
     (let (ev, w1) = ev_read keygrabber r w in handle_event ev w1)"

text \<open>
  \<^verbatim>\<open>while (1)\<close>: each iteration consumes the result of one \<^verbatim>\<open>read\<close>. The loop has no
  exit but \<^verbatim>\<open>break\<close>; when the results the environment supplies are used up and the loop
  is still \<open>Running\<close>, the process has not returned: \<open>None\<close>.
\<close>

fun loop :: "int \<Rightarrow> read_result list \<Rightarrow> world \<Rightarrow> world option" where
  "loop keygrabber [] w = None"
| "loop keygrabber (r # rs) w =
     (case iteration keygrabber r w of
        (Running, w') \<Rightarrow> loop keygrabber rs w'
      | (Terminated, w') \<Rightarrow> Some w')"

text \<open>
  What the environment answers to the calls of \<^verbatim>\<open>main\<close>: the return values of
  \<^verbatim>\<open>open\<close> and \<^verbatim>\<open>daemon\<close>, and the results of the successive reads.
\<close>

record env =
  open_ret :: int
  daemon_ret :: int
  reads :: "read_result list"

definition initial_world :: world where
  "initial_world = \<lparr>open_fds = {0, 1, 2}, trace = []\<rparr>"

definition usage_msg :: string where
  "usage_msg = ''usage: managerui /dev/input/eventX'' @ [CHR 0x0A]"

definition open_msg :: string where
  "open_msg = ''Cannot open event file'' @ [CHR 0x0A]"

definition daemon_msg :: string where
  "daemon_msg = ''Cannot fork into background'' @ [CHR 0x0A]"

text \<open>
  \<^verbatim>\<open>main\<close>: \<open>argv\<close> is the argument vector and \<^verbatim>\<open>argc\<close> its length. The result is the
  exit status with the final state of the process, or \<open>None\<close> while the loop has not
  returned.
\<close>

definition main :: "string list \<Rightarrow> env \<Rightarrow> (int \<times> world) option" where
  "main argv e =
     (let argc = int (length argv) in
      if argc < 2 then Some (EXIT_FAILURE, fprintf_stderr usage_msg initial_world)
      else
        let (keygrabber, w1) = ev_open (argv ! 1) (open_ret e) initial_world in
        if keygrabber < 0 then Some (EXIT_FAILURE, fprintf_stderr open_msg w1)
        else
          let (d, w2) = sys_daemon (daemon_ret e) w1 in
          if d \<noteq> 0 then Some (EXIT_FAILURE, fprintf_stderr daemon_msg w2)
          else
            (case loop keygrabber (reads e) w2 of
               None \<Rightarrow> None
             | Some w3 \<Rightarrow> Some (EXIT_SUCCESS, ev_close keygrabber w3)))"

text \<open>
  The state of the process when the loop is entered: the device is open and
  \<^verbatim>\<open>daemon\<close> has returned 0.
\<close>

definition started :: "string list \<Rightarrow> env \<Rightarrow> world" where
  "started argv e =
     \<lparr>open_fds = insert (open_ret e) {0, 1, 2},
      trace = [SysOpen (argv ! 1) (open_ret e), SysDaemon 0]\<rparr>"

subsection \<open>Reading the packed integer (lines 43 to 61)\<close>

text \<open>
  The five results the comment above \<open>ev_read\<close> describes, as a datatype, and the function
  that reads a packed integer as one of them with the macros of the program: with
  \<open>EV_ERROR\<close> set the low 16 bits are the error code, otherwise \<open>EV_UP\<close> is a release,
  \<open>EV_HOLD\<close> a hold and neither of them a press. An integer with an unknown error code, or
  with \<open>EV_UP\<close> and \<open>EV_HOLD\<close> both set, is none of the five.
\<close>

datatype DecodedEvent =
    Pressed "16 word"
  | Held "16 word"
  | Released "16 word"
  | WouldBlock
  | Fatal

definition decoded :: "uint32_t \<Rightarrow> DecodedEvent option" where
  "decoded ev =
     (if EV_FAIL ev \<noteq> 0 then
        (if EV_GETERROR ev = EV_EBLOCK then Some WouldBlock
         else if EV_GETERROR ev = EV_EFILE then Some Fatal
         else None)
      else if EV_HASFLAG ev EV_UP \<noteq> 0 \<and> EV_HASFLAG ev EV_HOLD \<noteq> 0 then None
      else if EV_HASFLAG ev EV_UP \<noteq> 0 then Some (Released (ucast (EV_GETCODE ev)))
      else if EV_HASFLAG ev EV_HOLD \<noteq> 0 then Some (Held (ucast (EV_GETCODE ev)))
      else Some (Pressed (ucast (EV_GETCODE ev))))"

subsection \<open>Sample reads\<close>

text \<open>
  Reads used as concrete inputs below: a key record read in full, a sync record read in
  full, and a read that fails with a given \<^verbatim>\<open>errno\<close>.
\<close>

definition key_record :: "16 word \<Rightarrow> 32 word \<Rightarrow> read_result" where
  "key_record c v =
     \<lparr>rr_ret = 24, rr_errno = 0, rr_ev = \<lparr>ev_type = EV_KEY, ev_code = c, ev_value = v\<rparr>\<rparr>"

definition syn_record :: read_result where
  "syn_record =
     \<lparr>rr_ret = 24, rr_errno = 0, rr_ev = \<lparr>ev_type = EV_SYN, ev_code = 0, ev_value = 0\<rparr>\<rparr>"

definition failed_read :: "int \<Rightarrow> read_result" where
  "failed_read err =
     \<lparr>rr_ret = - 1, rr_errno = err, rr_ev = \<lparr>ev_type = 0, ev_code = 0, ev_value = 0\<rparr>\<rparr>"

text \<open>
  The scenario of the specification: key 225 pressed, held twice and released, a sync
  record, key 999 pressed and released, and a read that fails with \<^verbatim>\<open>ENODEV\<close>.
\<close>

definition scenario :: "read_result list" where
  "scenario =
     [key_record 225 1, key_record 225 2, key_record 225 2, key_record 225 0, syn_record,
      key_record 999 1, key_record 999 0, failed_read ENODEV]"

section \<open>Properties\<close>

subsection \<open>Bits of the packed integer\<close>

lemma ucast16_high: "16 \<le> n \<Longrightarrow> \<not> bit (ucast (c::16 word) :: 32 word) n"
  by (auto simp add: bit_simps dest: bit_imp_le_length)

lemma bit_pow32: "m < 32 \<Longrightarrow> bit (2 ^ m :: 32 word) n \<longleftrightarrow> n = m"
  by (subst bit_exp_iff) auto

lemma bit_EV_UP: "bit EV_UP n \<longleftrightarrow> n = 17"
proof -
  have "EV_UP = 2 ^ 17" by (simp add: EV_UP_def)
  then show ?thesis using bit_pow32[of 17 n] by (simp only:)
qed

lemma bit_EV_HOLD: "bit EV_HOLD n \<longleftrightarrow> n = 18"
proof -
  have "EV_HOLD = 2 ^ 18" by (simp add: EV_HOLD_def)
  then show ?thesis using bit_pow32[of 18 n] by (simp only:)
qed

lemma bit_EV_ERROR: "bit EV_ERROR n \<longleftrightarrow> n = 16"
proof -
  have "EV_ERROR = 2 ^ 16" by (simp add: EV_ERROR_def)
  then show ?thesis using bit_pow32[of 16 n] by (simp only:)
qed

lemma bit_ffff: "bit (0xffff :: 32 word) n \<longleftrightarrow> n < 16"
proof -
  have "(0xffff :: 32 word) = mask 16" by (simp add: mask_eq_exp_minus_1)
  then show ?thesis using bit_mask_iff[where 'a="32 word", of 16 n] by (simp only:) auto
qed

lemma getcode_bit: "bit (EV_GETCODE x) n \<longleftrightarrow> n < 16 \<and> bit x n"
  unfolding EV_GETCODE_def bit_and_iff bit_ffff by auto

lemma getcode_ucast: "EV_GETCODE (ucast (c :: 16 word)) = ucast c"
  by (rule bit_word_eqI) (use ucast16_high[of _ c] in \<open>auto simp add: getcode_bit not_le[symmetric]\<close>)


lemma ucast_ucast_code: "(ucast (ucast (c :: 16 word) :: 32 word) :: 16 word) = c"
  by (rule bit_word_eqI) (auto simp add: bit_simps)

lemma ucast_code_eq_iff: "(ucast (c :: 16 word) :: 32 word) = ucast d \<longleftrightarrow> c = d"
  by (metis ucast_ucast_code)

lemma ucast_225: "(ucast (c :: 16 word) :: 32 word) = 225 \<longleftrightarrow> c = 225"
  using ucast_code_eq_iff[of c 225] by simp

lemma ucast_224: "(ucast (c :: 16 word) :: 32 word) = 224 \<longleftrightarrow> c = 224"
  using ucast_code_eq_iff[of c 224] by simp

lemma hasflag_zero_iff:
  "EV_HASFLAG x EV_UP = 0 \<longleftrightarrow> \<not> bit x 17"
  "EV_HASFLAG x EV_HOLD = 0 \<longleftrightarrow> \<not> bit x 18"
  "EV_FAIL x = 0 \<longleftrightarrow> \<not> bit x 16"
proof -
  have p: "EV_UP = 2 ^ 17" "EV_HOLD = 2 ^ 18" "EV_ERROR = 2 ^ 16"
    by (simp_all add: EV_UP_def EV_HOLD_def EV_ERROR_def)
  show "EV_HASFLAG x EV_UP = 0 \<longleftrightarrow> \<not> bit x 17"
    unfolding EV_HASFLAG_def p by (rule and_exp_eq_0_iff_not_bit)
  show "EV_HASFLAG x EV_HOLD = 0 \<longleftrightarrow> \<not> bit x 18"
    unfolding EV_HASFLAG_def p by (rule and_exp_eq_0_iff_not_bit)
  show "EV_FAIL x = 0 \<longleftrightarrow> \<not> bit x 16"
    unfolding EV_FAIL_def EV_HASFLAG_def p by (rule and_exp_eq_0_iff_not_bit)
qed

lemma bit_packed:
  "bit (ucast (c::16 word) :: 32 word) n \<longleftrightarrow> n < 16 \<and> bit c n"
  by (auto simp add: bit_simps dest: bit_imp_le_length)

lemma bit_EV_EBLOCK: "bit EV_EBLOCK n \<longleftrightarrow> n = 0"
  using bit_pow32[of 0 n] by (simp add: EV_EBLOCK_def)

lemma bit_EV_EFILE: "bit EV_EFILE n \<longleftrightarrow> n = 1"
  using bit_pow32[of 1 n] by (simp add: EV_EFILE_def)

lemmas packed_bits = bit_or_iff bit_packed bit_EV_UP bit_EV_HOLD bit_EV_ERROR bit_EV_EBLOCK bit_EV_EFILE

lemma getcode_results:
  "EV_GETCODE (ucast (c::16 word)) = ucast c"
  "EV_GETCODE (ucast (c::16 word) OR EV_HOLD) = ucast c"
  "EV_GETCODE (ucast (c::16 word) OR EV_UP) = ucast c"
  "EV_GETCODE (EV_EBLOCK OR EV_ERROR) = EV_EBLOCK"
  "EV_GETCODE (EV_EFILE OR EV_ERROR) = EV_EFILE"
  by (rule bit_word_eqI; auto simp add: getcode_bit packed_bits)+

lemma flags_results:
  "EV_FAIL (ucast (c::16 word)) = 0"
  "EV_FAIL (ucast (c::16 word) OR EV_HOLD) = 0"
  "EV_FAIL (ucast (c::16 word) OR EV_UP) = 0"
  "EV_FAIL (EV_EBLOCK OR EV_ERROR) \<noteq> 0"
  "EV_FAIL (EV_EFILE OR EV_ERROR) \<noteq> 0"
  "EV_HASFLAG (ucast (c::16 word)) EV_UP = 0"
  "EV_HASFLAG (ucast (c::16 word) OR EV_HOLD) EV_UP = 0"
  "EV_HASFLAG (ucast (c::16 word) OR EV_UP) EV_UP \<noteq> 0"
  "EV_HASFLAG (ucast (c::16 word)) EV_HOLD = 0"
  "EV_HASFLAG (ucast (c::16 word) OR EV_HOLD) EV_HOLD \<noteq> 0"
  "EV_HASFLAG (ucast (c::16 word) OR EV_UP) EV_HOLD = 0"
  by (simp_all add: hasflag_zero_iff packed_bits)

lemma eblock_neq_efile: "EV_EBLOCK \<noteq> EV_EFILE"
  by (simp add: EV_EBLOCK_def EV_EFILE_def)


lemma getcode_round: "ucast (ucast (EV_GETCODE x) :: 16 word) = EV_GETCODE x"
  by (rule bit_word_eqI) (auto simp add: bit_packed getcode_bit bit_simps)

lemma getcode_eq_iff: "EV_GETCODE x = ucast (c :: 16 word) \<longleftrightarrow> (ucast (EV_GETCODE x) :: 16 word) = c"
  by (metis getcode_round ucast_ucast_code)

lemma getcode_225: "EV_GETCODE x = 225 \<longleftrightarrow> (ucast (EV_GETCODE x) :: 16 word) = 225"
  using getcode_eq_iff[of x 225] by simp

lemma getcode_224: "EV_GETCODE x = 224 \<longleftrightarrow> (ucast (EV_GETCODE x) :: 16 word) = 224"
  using getcode_eq_iff[of x 224] by simp

lemma decoded_results:
  "decoded (ucast (c::16 word)) = Some (Pressed c)"
  "decoded (ucast (c::16 word) OR EV_HOLD) = Some (Held c)"
  "decoded (ucast (c::16 word) OR EV_UP) = Some (Released c)"
  "decoded (EV_EBLOCK OR EV_ERROR) = Some WouldBlock"
  "decoded (EV_EFILE OR EV_ERROR) = Some Fatal"
  by (simp_all add: decoded_def EV_GETERROR_def getcode_results flags_results
      ucast_ucast_code eblock_neq_efile[symmetric])

lemma ev_read_failed:
  "rr_ret r < 1 \<Longrightarrow> ev_read fd r w =
     (if rr_errno r = EINTR \<or> rr_errno r = EAGAIN \<or> rr_errno r = EWOULDBLOCK
      then (EV_EBLOCK OR EV_ERROR, sys_read fd r w)
      else (EV_EFILE OR EV_ERROR, sys_close fd (sys_read fd r w)))"
  by (simp add: ev_read_def)

lemma ev_read_key:
  "1 \<le> rr_ret r \<Longrightarrow> ev_type (rr_ev r) = EV_KEY \<Longrightarrow> ev_read fd r w =
     (if ev_value (rr_ev r) = 1 then ucast (ev_code (rr_ev r))
      else if ev_value (rr_ev r) = 2 then ucast (ev_code (rr_ev r)) OR EV_HOLD
      else ucast (ev_code (rr_ev r)) OR EV_UP, sys_read fd r w)"
  by (simp add: ev_read_def)

lemma ev_read_other:
  "1 \<le> rr_ret r \<Longrightarrow> ev_type (rr_ev r) \<noteq> EV_KEY \<Longrightarrow>
     ev_read fd r w = (EV_EBLOCK OR EV_ERROR, sys_read fd r w)"
  by (simp add: ev_read_def)

lemma handle_event_error:
  "EV_FAIL ev \<noteq> 0 \<Longrightarrow>
     handle_event ev w = (if EV_GETERROR ev = EV_EBLOCK then Running else Terminated, w)"
  by (simp add: handle_event_def)

lemma handle_event_no_up:
  "EV_FAIL ev = 0 \<Longrightarrow> EV_HASFLAG ev EV_UP = 0 \<Longrightarrow> handle_event ev w = (Running, w)"
  by (simp add: handle_event_def)

lemma handle_event_up:
  "EV_FAIL ev = 0 \<Longrightarrow> EV_HASFLAG ev EV_UP \<noteq> 0 \<Longrightarrow>
     handle_event ev w =
       (Running, if EV_GETCODE ev = 225 then sys_system ''setbacklight %+10'' w
                 else if EV_GETCODE ev = 224 then sys_system ''setbacklight %-10'' w else w)"
  by (simp add: handle_event_def)

lemma handle_event_results:
  "handle_event (EV_EBLOCK OR EV_ERROR) w = (Running, w)"
  "handle_event (EV_EFILE OR EV_ERROR) w = (Terminated, w)"
  "handle_event (ucast (c::16 word)) w = (Running, w)"
  "handle_event (ucast (c::16 word) OR EV_HOLD) w = (Running, w)"
  "handle_event (ucast (c::16 word) OR EV_UP) w =
     (Running, if c = 225 then sys_system ''setbacklight %+10'' w
               else if c = 224 then sys_system ''setbacklight %-10'' w else w)"
proof -
  show "handle_event (EV_EBLOCK OR EV_ERROR) w = (Running, w)"
    by (simp add: handle_event_error flags_results EV_GETERROR_def getcode_results)
  show "handle_event (EV_EFILE OR EV_ERROR) w = (Terminated, w)"
    by (simp add: handle_event_error flags_results EV_GETERROR_def getcode_results
        eblock_neq_efile[symmetric])
  show "handle_event (ucast c) w = (Running, w)"
    by (rule handle_event_no_up) (rule flags_results)+
  show "handle_event (ucast c OR EV_HOLD) w = (Running, w)"
    by (rule handle_event_no_up) (rule flags_results)+
  have "handle_event (ucast c OR EV_UP) w =
       (Running, if EV_GETCODE (ucast c OR EV_UP) = 225 then sys_system ''setbacklight %+10'' w
                 else if EV_GETCODE (ucast c OR EV_UP) = 224
                      then sys_system ''setbacklight %-10'' w else w)"
    by (rule handle_event_up) (rule flags_results)+
  then show "handle_event (ucast c OR EV_UP) w =
     (Running, if c = 225 then sys_system ''setbacklight %+10'' w
               else if c = 224 then sys_system ''setbacklight %-10'' w else w)"
    by (simp only: getcode_results ucast_225 ucast_224)
qed

lemma hasflag_error: "EV_HASFLAG x EV_ERROR = EV_FAIL x"
  by (simp add: EV_FAIL_def)

lemma error_flags_results:
  "EV_HASFLAG (EV_EBLOCK OR EV_ERROR) EV_UP = 0"
  "EV_HASFLAG (EV_EBLOCK OR EV_ERROR) EV_HOLD = 0"
  "EV_HASFLAG (EV_EFILE OR EV_ERROR) EV_UP = 0"
  "EV_HASFLAG (EV_EFILE OR EV_ERROR) EV_HOLD = 0"
  by (simp_all add: hasflag_zero_iff packed_bits)

lemma high_bits_results:
  "drop_bit 19 (ucast (c::16 word) :: 32 word) = 0"
  "drop_bit 19 EV_HOLD = 0"
  "drop_bit 19 EV_UP = 0"
  "drop_bit 19 EV_ERROR = 0"
  "drop_bit 19 EV_EBLOCK = 0"
  "drop_bit 19 EV_EFILE = 0"
  by (rule bit_word_eqI; simp add: bit_drop_bit_eq packed_bits)+

subsection \<open>The cases of \<open>ev_read\<close> and of one iteration\<close>

lemma ev_read_cases:
  fixes r :: read_result
  obtains (block) "rr_ret r < 1" "\<not> fatal_read r"
      "ev_read fd r w = (EV_EBLOCK OR EV_ERROR, sys_read fd r w)"
  | (fatal) "fatal_read r"
      "ev_read fd r w = (EV_EFILE OR EV_ERROR, sys_close fd (sys_read fd r w))"
  | (pressed) "\<not> fatal_read r" "1 \<le> rr_ret r" "ev_type (rr_ev r) = EV_KEY" "ev_value (rr_ev r) = 1"
      "ev_read fd r w = (ucast (ev_code (rr_ev r)), sys_read fd r w)"
  | (held) "\<not> fatal_read r" "1 \<le> rr_ret r" "ev_type (rr_ev r) = EV_KEY" "ev_value (rr_ev r) = 2"
      "ev_read fd r w = (ucast (ev_code (rr_ev r)) OR EV_HOLD, sys_read fd r w)"
  | (released) "\<not> fatal_read r" "1 \<le> rr_ret r" "ev_type (rr_ev r) = EV_KEY"
      "ev_value (rr_ev r) \<noteq> 1" "ev_value (rr_ev r) \<noteq> 2"
      "ev_read fd r w = (ucast (ev_code (rr_ev r)) OR EV_UP, sys_read fd r w)"
  | (other) "\<not> fatal_read r" "1 \<le> rr_ret r" "ev_type (rr_ev r) \<noteq> EV_KEY"
      "ev_read fd r w = (EV_EBLOCK OR EV_ERROR, sys_read fd r w)"
proof (cases "rr_ret r < 1")
  case True
  show thesis
  proof (cases "fatal_read r")
    case True
    then show thesis
      by (intro fatal) (simp_all add: ev_read_failed fatal_read_def)
  next
    case False
    with \<open>rr_ret r < 1\<close> show thesis
      by (intro block) (simp_all add: ev_read_failed fatal_read_def)
  qed
next
  case False
  then have full: "1 \<le> rr_ret r" and nf: "\<not> fatal_read r"
    by (simp_all add: fatal_read_def)
  show thesis
  proof (cases "ev_type (rr_ev r) = EV_KEY")
    case True
    consider "ev_value (rr_ev r) = 1" | "ev_value (rr_ev r) = 2"
      | "ev_value (rr_ev r) \<noteq> 1" "ev_value (rr_ev r) \<noteq> 2"
      by blast
    then show thesis
    proof cases
      case 1
      with nf full True show thesis by (intro pressed) (simp_all add: ev_read_key)
    next
      case 2
      with nf full True show thesis by (intro held) (simp_all add: ev_read_key)
    next
      case 3
      with nf full True show thesis by (intro released) (simp_all add: ev_read_key)
    qed
  next
    case False
    with nf full show thesis by (intro other) (simp_all add: ev_read_other)
  qed
qed

lemma decoded_fatal_iff: "decoded (fst (ev_read fd r w)) = Some Fatal \<longleftrightarrow> fatal_read r"
  by (rule ev_read_cases [where r = r and fd = fd and w = w]) (simp_all add: decoded_results)

lemma iteration_terminated_iff: "fst (iteration fd r w) = Terminated \<longleftrightarrow> fatal_read r"
  by (rule ev_read_cases [where r = r and fd = fd and w = w])
    (simp_all add: iteration_def handle_event_results)

lemma iteration_fatal:
  "fatal_read r \<Longrightarrow> iteration fd r w = (Terminated, sys_close fd (sys_read fd r w))"
  by (rule ev_read_cases [where r = r and fd = fd and w = w])
    (simp_all add: iteration_def handle_event_results)

lemma iteration_running_fds:
  "\<not> fatal_read r \<Longrightarrow> fst (iteration fd r w) = Running \<and>
     open_fds (snd (iteration fd r w)) = open_fds w"
  by (rule ev_read_cases [where r = r and fd = fd and w = w])
    (simp_all add: iteration_def handle_event_results sys_read_def sys_system_def)

lemma dispatch_decoded:
  assumes "decoded ev = Some d" and "d \<noteq> WouldBlock" and "d \<noteq> Fatal"
  shows "handle_event ev w =
     (Running, if d = Released 224 then sys_system ''setbacklight %-10'' w
               else if d = Released 225 then sys_system ''setbacklight %+10'' w else w)"
proof -
  from assms have nofail: "EV_FAIL ev = 0"
    by (auto simp add: decoded_def split: if_splits)
  show ?thesis
  proof (cases "EV_HASFLAG ev EV_UP = 0")
    case True
    with assms(1) nofail have "\<forall>c. d \<noteq> Released c"
      by (auto simp add: decoded_def split: if_splits)
    with True nofail show ?thesis by (simp add: handle_event_no_up)
  next
    case False
    with assms(1) nofail have "d = Released (ucast (EV_GETCODE ev))"
      by (auto simp add: decoded_def split: if_splits)
    with False nofail show ?thesis
      by (simp add: handle_event_up getcode_225 getcode_224)
  qed
qed

lemma ev_read_fst_world: "fst (ev_read fd r w) = fst (ev_read fd r w')"
  by (simp add: ev_read_def Let_def)

lemma loop_returns_iff: "loop fd rs w \<noteq> None \<longleftrightarrow> (\<exists>r\<in>set rs. fatal_read r)"
proof (induction rs arbitrary: w)
  case Nil
  show ?case by simp
next
  case (Cons r rs)
  show ?case
  proof (cases "fatal_read r")
    case True
    then show ?thesis by (simp add: iteration_fatal)
  next
    case False
    from iteration_running_fds [OF False, of fd w]
    obtain w' where "iteration fd r w = (Running, w')"
      by (cases "iteration fd r w") simp
    with False Cons.IH [of w'] show ?thesis by simp
  qed
qed

lemma sample_reads:
  "ev_read fd (key_record c 1) w = (ucast c, sys_read fd (key_record c 1) w)"
  "ev_read fd (key_record c 2) w = (ucast c OR EV_HOLD, sys_read fd (key_record c 2) w)"
  "ev_read fd (key_record c 0) w = (ucast c OR EV_UP, sys_read fd (key_record c 0) w)"
  "ev_read fd syn_record w = (EV_EBLOCK OR EV_ERROR, sys_read fd syn_record w)"
  "ev_read fd (failed_read EINTR) w = (EV_EBLOCK OR EV_ERROR, sys_read fd (failed_read EINTR) w)"
  "ev_read fd (failed_read ENODEV) w =
     (EV_EFILE OR EV_ERROR, sys_close fd (sys_read fd (failed_read ENODEV) w))"
  by (simp_all add: ev_read_def key_record_def syn_record_def failed_read_def
      EV_KEY_def EV_SYN_def EINTR_def EAGAIN_def EWOULDBLOCK_def ENODEV_def)

lemma sample_iterations:
  "iteration fd (key_record c 1) w = (Running, sys_read fd (key_record c 1) w)"
  "iteration fd (key_record c 2) w = (Running, sys_read fd (key_record c 2) w)"
  "iteration fd (key_record c 0) w =
     (Running, if c = 225 then sys_system ''setbacklight %+10'' (sys_read fd (key_record c 0) w)
               else if c = 224 then sys_system ''setbacklight %-10'' (sys_read fd (key_record c 0) w)
               else sys_read fd (key_record c 0) w)"
  "iteration fd syn_record w = (Running, sys_read fd syn_record w)"
  "iteration fd (failed_read EINTR) w = (Running, sys_read fd (failed_read EINTR) w)"
  "iteration fd (failed_read ENODEV) w =
     (Terminated, sys_close fd (sys_read fd (failed_read ENODEV) w))"
  by (simp_all add: iteration_def sample_reads handle_event_results)

subsection \<open>The loop and \<open>main\<close>\<close>

lemma loop_returns_closed:
  "loop fd rs w = Some w' \<Longrightarrow> fd \<in> open_fds w \<Longrightarrow>
     open_fds w' = open_fds w - {fd} \<and>
     (\<exists>pre n. n < 1 \<and> trace w' = pre @ [SysRead fd n, SysClose fd 0])"
proof (induction rs arbitrary: w)
  case Nil
  then show ?case by simp
next
  case (Cons r rs)
  show ?case
  proof (cases "fatal_read r")
    case True
    with Cons.prems have w': "w' = sys_close fd (sys_read fd r w)"
      by (simp add: iteration_fatal)
    from True have "rr_ret r < 1" by (simp add: fatal_read_def)
    with w' Cons.prems(2) show ?thesis
      by (auto simp add: sys_close_def sys_read_def)
  next
    case False
    from iteration_running_fds [OF False, of fd w]
    obtain w1 where it: "iteration fd r w = (Running, w1)" and fds: "open_fds w1 = open_fds w"
      by (cases "iteration fd r w") simp
    from it Cons.prems(1) have "loop fd rs w1 = Some w'" by simp
    moreover from fds Cons.prems(2) have "fd \<in> open_fds w1" by simp
    ultimately show ?thesis using Cons.IH [of w1] fds by simp
  qed
qed

lemma main_no_argument:
  "length argv < 2 \<Longrightarrow>
     main argv e = Some (EXIT_FAILURE, \<lparr>open_fds = {0, 1, 2}, trace = [SysStderr usage_msg]\<rparr>)"
  by (simp add: main_def fprintf_stderr_def initial_world_def)

lemma main_open_failed:
  "2 \<le> length argv \<Longrightarrow> open_ret e < 0 \<Longrightarrow>
     main argv e = Some (EXIT_FAILURE,
       \<lparr>open_fds = {0, 1, 2}, trace = [SysOpen (argv ! 1) (open_ret e), SysStderr open_msg]\<rparr>)"
  by (simp add: main_def ev_open_def sys_open_def fprintf_stderr_def initial_world_def)

lemma main_daemon_failed:
  "2 \<le> length argv \<Longrightarrow> 0 \<le> open_ret e \<Longrightarrow> daemon_ret e \<noteq> 0 \<Longrightarrow>
     main argv e = Some (EXIT_FAILURE,
       \<lparr>open_fds = insert (open_ret e) {0, 1, 2},
        trace = [SysOpen (argv ! 1) (open_ret e), SysDaemon (daemon_ret e),
                 SysStderr daemon_msg]\<rparr>)"
  by (simp add: main_def ev_open_def sys_open_def sys_daemon_def fprintf_stderr_def
      initial_world_def)

lemma main_started:
  "2 \<le> length argv \<Longrightarrow> 0 \<le> open_ret e \<Longrightarrow> daemon_ret e = 0 \<Longrightarrow>
     main argv e =
       (case loop (open_ret e) (reads e) (started argv e) of
          None \<Rightarrow> None
        | Some w3 \<Rightarrow> Some (EXIT_SUCCESS, ev_close (open_ret e) w3))"
  by (simp add: main_def ev_open_def sys_open_def sys_daemon_def initial_world_def started_def)

lemma sample_rets:
  "rr_ret (key_record c v) = 24" "rr_ret syn_record = 24" "rr_ret (failed_read err) = - 1"
  by (simp_all add: key_record_def syn_record_def failed_read_def)

lemma sample_fatal:
  "\<not> fatal_read (key_record c v)" "\<not> fatal_read syn_record"
  "\<not> fatal_read (failed_read EINTR)" "fatal_read (failed_read ENODEV)"
  by (simp_all add: fatal_read_def key_record_def syn_record_def failed_read_def
      EINTR_def EAGAIN_def EWOULDBLOCK_def ENODEV_def)

lemma main_scenario:
  "main [''managerui'', ''/dev/input/event3'']
     \<lparr>open_ret = 3, daemon_ret = 0, reads = scenario\<rparr>
   = Some (EXIT_SUCCESS,
       \<lparr>open_fds = {0, 1, 2},
        trace = [SysOpen ''/dev/input/event3'' 3, SysDaemon 0,
                 SysRead 3 24, SysRead 3 24, SysRead 3 24,
                 SysRead 3 24, SysSystem ''setbacklight %+10'',
                 SysRead 3 24, SysRead 3 24, SysRead 3 24,
                 SysRead 3 (- 1), SysClose 3 0, SysClose 3 (- 1)]\<rparr>)"
  by (simp add: main_started started_def scenario_def sample_iterations sample_rets
      sys_read_def sys_system_def sys_close_def ev_close_def insert_Diff_if)

subsection \<open>Claims about \<open>ev_read\<close>\<close>

text \<open>
  Claim C2. For every record of class key event that is read in full (the read returns the
  size of one record): with value 1 \<open>ev_read\<close> returns the 16-bit code of the record with
  no flag, which reads as \<open>Pressed\<close> with that code; with value 2 it returns the code with
  \<open>EV_HOLD\<close>, which reads as \<open>Held\<close>; with value 0 it returns the code with \<open>EV_UP\<close>,
  which reads as \<open>Released\<close>.
\<close>

theorem C2_key_values:
  assumes "rr_ret r = sizeof_input_event" and "ev_type (rr_ev r) = EV_KEY"
  shows "(ev_value (rr_ev r) = 1 \<longrightarrow>
            fst (ev_read fd r w) = ucast (ev_code (rr_ev r)) \<and>
            decoded (fst (ev_read fd r w)) = Some (Pressed (ev_code (rr_ev r))))
       \<and> (ev_value (rr_ev r) = 2 \<longrightarrow>
            fst (ev_read fd r w) = ucast (ev_code (rr_ev r)) OR EV_HOLD \<and>
            decoded (fst (ev_read fd r w)) = Some (Held (ev_code (rr_ev r))))
       \<and> (ev_value (rr_ev r) = 0 \<longrightarrow>
            fst (ev_read fd r w) = ucast (ev_code (rr_ev r)) OR EV_UP \<and>
            decoded (fst (ev_read fd r w)) = Some (Released (ev_code (rr_ev r))))"
proof -
  from assms(1) have "1 \<le> rr_ret r" by (simp add: sizeof_input_event_def)
  then show ?thesis using assms(2)
    by (simp add: ev_read_key decoded_results)
qed

theorem C2_key_values_witness:
  "fst (ev_read 3 \<lparr>rr_ret = 24, rr_errno = 0,
       rr_ev = \<lparr>ev_type = 1, ev_code = 225, ev_value = 1\<rparr>\<rparr> initial_world) = 225
 \<and> decoded (fst (ev_read 3 \<lparr>rr_ret = 24, rr_errno = 0,
       rr_ev = \<lparr>ev_type = 1, ev_code = 225, ev_value = 1\<rparr>\<rparr> initial_world)) = Some (Pressed 225)
 \<and> fst (ev_read 3 \<lparr>rr_ret = 24, rr_errno = 0,
       rr_ev = \<lparr>ev_type = 1, ev_code = 225, ev_value = 2\<rparr>\<rparr> initial_world) = 225 OR EV_HOLD
 \<and> decoded (fst (ev_read 3 \<lparr>rr_ret = 24, rr_errno = 0,
       rr_ev = \<lparr>ev_type = 1, ev_code = 225, ev_value = 2\<rparr>\<rparr> initial_world)) = Some (Held 225)
 \<and> fst (ev_read 3 \<lparr>rr_ret = 24, rr_errno = 0,
       rr_ev = \<lparr>ev_type = 1, ev_code = 225, ev_value = 0\<rparr>\<rparr> initial_world) = 225 OR EV_UP
 \<and> decoded (fst (ev_read 3 \<lparr>rr_ret = 24, rr_errno = 0,
       rr_ev = \<lparr>ev_type = 1, ev_code = 225, ev_value = 0\<rparr>\<rparr> initial_world)) = Some (Released 225)"
proof -
  have h: "rr_ret \<lparr>rr_ret = 24, rr_errno = 0, rr_ev = e\<rparr> = sizeof_input_event"
    "ev_type (rr_ev \<lparr>rr_ret = 24, rr_errno = 0,
       rr_ev = \<lparr>ev_type = 1, ev_code = 225, ev_value = v\<rparr>\<rparr>) = EV_KEY" for e v
    by (simp_all add: sizeof_input_event_def EV_KEY_def)
  show ?thesis
    using C2_key_values [OF h(1) h(2), of 1 3 initial_world]
      C2_key_values [OF h(1) h(2), of 2 3 initial_world]
      C2_key_values [OF h(1) h(2), of 0 3 initial_world]
    by (simp (no_asm_use)) blast
qed

text \<open>
  Claim C3, as stated: every key record read in full whose value is not 0, 1 or 2 makes
  \<open>ev_read\<close> return the would-block result, so that it never triggers a dispatch action.
  This fails: the record with code 225 and value 3 is returned as code 225 with \<open>EV_UP\<close>,
  a release, and the loop runs the command for key 225 on it. The \<^verbatim>\<open>else\<close> of line 94
  takes every value other than 1 and 2.
\<close>

theorem C3_unknown_value_counterexample:
  "rr_ret \<lparr>rr_ret = 24, rr_errno = 0,
           rr_ev = \<lparr>ev_type = 1, ev_code = 225, ev_value = 3\<rparr>\<rparr> = sizeof_input_event
 \<and> ev_type (rr_ev \<lparr>rr_ret = 24, rr_errno = 0,
           rr_ev = \<lparr>ev_type = 1, ev_code = 225, ev_value = 3\<rparr>\<rparr>) = EV_KEY
 \<and> decoded (fst (ev_read 3 \<lparr>rr_ret = 24, rr_errno = 0,
           rr_ev = \<lparr>ev_type = 1, ev_code = 225, ev_value = 3\<rparr>\<rparr>
         \<lparr>open_fds = {0, 1, 2, 3}, trace = []\<rparr>)) = Some (Released 225)
 \<and> decoded (fst (ev_read 3 \<lparr>rr_ret = 24, rr_errno = 0,
           rr_ev = \<lparr>ev_type = 1, ev_code = 225, ev_value = 3\<rparr>\<rparr>
         \<lparr>open_fds = {0, 1, 2, 3}, trace = []\<rparr>)) \<noteq> Some WouldBlock
 \<and> trace (snd (iteration 3 \<lparr>rr_ret = 24, rr_errno = 0,
           rr_ev = \<lparr>ev_type = 1, ev_code = 225, ev_value = 3\<rparr>\<rparr>
         \<lparr>open_fds = {0, 1, 2, 3}, trace = []\<rparr>))
     = [SysRead 3 24, SysSystem ''setbacklight %+10'']"
  by (simp add: sizeof_input_event_def EV_KEY_def ev_read_key [unfolded EV_KEY_def]
      iteration_def decoded_results(3) [of 225, simplified]
      handle_event_results(5) [of 225, simplified] sys_read_def sys_system_def)

text \<open>
  Claim C3, amended: every key record read in full whose value is not 0, 1 or 2 (value 3,
  any negative value) makes \<open>ev_read\<close> return the code of the record with \<open>EV_UP\<close>, which
  reads as \<open>Released\<close> with that code, as value 0 does. The loop stays \<open>Running\<close> on it,
  and runs the command of the dispatch table when the code is 225 or 224 and nothing
  otherwise.
\<close>

theorem C3_unknown_value_released:
  assumes "rr_ret r = sizeof_input_event" and "ev_type (rr_ev r) = EV_KEY"
    and "ev_value (rr_ev r) \<notin> {0, 1, 2}"
  shows "fst (ev_read fd r w) = ucast (ev_code (rr_ev r)) OR EV_UP
       \<and> decoded (fst (ev_read fd r w)) = Some (Released (ev_code (rr_ev r)))
       \<and> iteration fd r w =
           (Running,
            if ev_code (rr_ev r) = 225 then sys_system ''setbacklight %+10'' (sys_read fd r w)
            else if ev_code (rr_ev r) = 224 then sys_system ''setbacklight %-10'' (sys_read fd r w)
            else sys_read fd r w)"
proof -
  from assms(1) have "1 \<le> rr_ret r" by (simp add: sizeof_input_event_def)
  with assms(2,3) have "ev_read fd r w = (ucast (ev_code (rr_ev r)) OR EV_UP, sys_read fd r w)"
    by (simp add: ev_read_key)
  then show ?thesis
    by (simp add: iteration_def decoded_results handle_event_results)
qed

theorem C3_unknown_value_released_witness:
  "fst (ev_read 3 \<lparr>rr_ret = 24, rr_errno = 0,
          rr_ev = \<lparr>ev_type = 1, ev_code = 224, ev_value = - 1\<rparr>\<rparr> initial_world) = 224 OR EV_UP
 \<and> decoded (fst (ev_read 3 \<lparr>rr_ret = 24, rr_errno = 0,
          rr_ev = \<lparr>ev_type = 1, ev_code = 224, ev_value = - 1\<rparr>\<rparr> initial_world))
     = Some (Released 224)
 \<and> iteration 3 \<lparr>rr_ret = 24, rr_errno = 0,
          rr_ev = \<lparr>ev_type = 1, ev_code = 224, ev_value = - 1\<rparr>\<rparr> initial_world
     = (Running, sys_system ''setbacklight %-10'' (sys_read 3 \<lparr>rr_ret = 24, rr_errno = 0,
          rr_ev = \<lparr>ev_type = 1, ev_code = 224, ev_value = - 1\<rparr>\<rparr> initial_world))"
proof -
  have h: "rr_ret \<lparr>rr_ret = 24, rr_errno = 0,
          rr_ev = \<lparr>ev_type = 1, ev_code = 224, ev_value = - 1\<rparr>\<rparr> = sizeof_input_event"
    "ev_type (rr_ev \<lparr>rr_ret = 24, rr_errno = 0,
          rr_ev = \<lparr>ev_type = 1, ev_code = 224, ev_value = - 1\<rparr>\<rparr>) = EV_KEY"
    "ev_value (rr_ev \<lparr>rr_ret = 24, rr_errno = 0,
          rr_ev = \<lparr>ev_type = 1, ev_code = 224, ev_value = - 1\<rparr>\<rparr>) \<notin> {0, 1, 2}"
    by (simp_all add: sizeof_input_event_def EV_KEY_def)
  show ?thesis
    using C3_unknown_value_released [OF h, of 3 initial_world]
    by ((simp (no_asm_use)); blast?)
qed

text \<open>
  Claim C4, as stated: every read that yields fewer bytes than one record makes \<open>ev_read\<close>
  return the would-block result or, closing the descriptor, the fatal result, by the value of
  \<^verbatim>\<open>errno\<close>, and never takes the partial bytes for a record. This fails: the test of line
  79 is \<^verbatim>\<open>read(...) < 1\<close>. A read of 20 bytes, fewer than the 24 of a record, with
  \<^verbatim>\<open>errno\<close> at 0 passes it; the contents of \<^verbatim>\<open>ev\<close> are taken for a record, here a
  release of key 225, and the descriptor stays open.
\<close>

theorem C4_short_read_counterexample:
  "rr_ret \<lparr>rr_ret = 20, rr_errno = 0,
           rr_ev = \<lparr>ev_type = 1, ev_code = 225, ev_value = 0\<rparr>\<rparr> < sizeof_input_event
 \<and> rr_errno \<lparr>rr_ret = 20, rr_errno = 0,
           rr_ev = \<lparr>ev_type = 1, ev_code = 225, ev_value = 0\<rparr>\<rparr> \<notin> {EINTR, EAGAIN, EWOULDBLOCK}
 \<and> decoded (fst (ev_read 3 \<lparr>rr_ret = 20, rr_errno = 0,
           rr_ev = \<lparr>ev_type = 1, ev_code = 225, ev_value = 0\<rparr>\<rparr>
         \<lparr>open_fds = {0, 1, 2, 3}, trace = []\<rparr>)) = Some (Released 225)
 \<and> snd (ev_read 3 \<lparr>rr_ret = 20, rr_errno = 0,
           rr_ev = \<lparr>ev_type = 1, ev_code = 225, ev_value = 0\<rparr>\<rparr>
         \<lparr>open_fds = {0, 1, 2, 3}, trace = []\<rparr>)
     = \<lparr>open_fds = {0, 1, 2, 3}, trace = [SysRead 3 20]\<rparr>"
  by (simp add: sizeof_input_event_def EINTR_def EAGAIN_def EWOULDBLOCK_def
      ev_read_key [unfolded EV_KEY_def] decoded_results(3) [of 225, simplified] sys_read_def)

text \<open>
  Claim C4, amended: every read that fails (a negative return value, with which
  \<^verbatim>\<open>read\<close> sets \<^verbatim>\<open>errno\<close> to the error) makes \<open>ev_read\<close> return the would-block
  result when the error is \<^verbatim>\<open>EINTR\<close>, \<^verbatim>\<open>EAGAIN\<close> or \<^verbatim>\<open>EWOULDBLOCK\<close>, and otherwise
  close the descriptor and return the fatal result; and on every read that returns less
  than 1 the result is the same whatever the contents of \<^verbatim>\<open>ev\<close>: they are not taken
  for a record. Which of the two results a read of no byte gives is left out: \<^verbatim>\<open>read\<close>
  does not set \<^verbatim>\<open>errno\<close> when it returns 0, and line 80 then tests a value left by an
  earlier call.
\<close>

theorem C4_failed_read:
  "(rr_ret r < 0 \<longrightarrow>
      (rr_errno r \<in> {EINTR, EAGAIN, EWOULDBLOCK} \<longrightarrow>
         ev_read fd r w = (EV_EBLOCK OR EV_ERROR, sys_read fd r w) \<and>
         decoded (fst (ev_read fd r w)) = Some WouldBlock)
    \<and> (rr_errno r \<notin> {EINTR, EAGAIN, EWOULDBLOCK} \<longrightarrow>
         ev_read fd r w = (EV_EFILE OR EV_ERROR, sys_close fd (sys_read fd r w)) \<and>
         decoded (fst (ev_read fd r w)) = Some Fatal))
 \<and> (rr_ret r < 1 \<longrightarrow> ev_read fd (r\<lparr>rr_ev := e\<rparr>) w = ev_read fd r w)"
  by (simp add: ev_read_failed decoded_results sys_read_def)

theorem C4_failed_read_witness:
  "ev_read 3 \<lparr>rr_ret = - 1, rr_errno = 4,
       rr_ev = \<lparr>ev_type = 1, ev_code = 225, ev_value = 0\<rparr>\<rparr> \<lparr>open_fds = {0, 1, 2, 3}, trace = []\<rparr>
     = (EV_EBLOCK OR EV_ERROR, \<lparr>open_fds = {0, 1, 2, 3}, trace = [SysRead 3 (- 1)]\<rparr>)
 \<and> ev_read 3 \<lparr>rr_ret = - 1, rr_errno = 19,
       rr_ev = \<lparr>ev_type = 1, ev_code = 225, ev_value = 0\<rparr>\<rparr> \<lparr>open_fds = {0, 1, 2, 3}, trace = []\<rparr>
     = (EV_EFILE OR EV_ERROR, \<lparr>open_fds = {0, 1, 2}, trace = [SysRead 3 (- 1), SysClose 3 0]\<rparr>)
 \<and> ev_read 3 \<lparr>rr_ret = - 1, rr_errno = 19,
       rr_ev = \<lparr>ev_type = 0, ev_code = 0, ev_value = 0\<rparr>\<rparr> \<lparr>open_fds = {0, 1, 2, 3}, trace = []\<rparr>
     = (EV_EFILE OR EV_ERROR, \<lparr>open_fds = {0, 1, 2}, trace = [SysRead 3 (- 1), SysClose 3 0]\<rparr>)"
proof -
  note intr = C4_failed_read [where fd = 3
      and r = "\<lparr>rr_ret = - 1, rr_errno = 4,
        rr_ev = \<lparr>ev_type = 1, ev_code = 225, ev_value = 0\<rparr>\<rparr>"
      and e = "\<lparr>ev_type = 0, ev_code = 0, ev_value = 0\<rparr>"
      and w = "\<lparr>open_fds = {0, 1, 2, 3}, trace = []\<rparr>"]
  note nodev = C4_failed_read [where fd = 3
      and r = "\<lparr>rr_ret = - 1, rr_errno = 19,
        rr_ev = \<lparr>ev_type = 1, ev_code = 225, ev_value = 0\<rparr>\<rparr>"
      and e = "\<lparr>ev_type = 0, ev_code = 0, ev_value = 0\<rparr>"
      and w = "\<lparr>open_fds = {0, 1, 2, 3}, trace = []\<rparr>"]
  show ?thesis
    using intr nodev
    by (simp (no_asm_use) add: EINTR_def EAGAIN_def EWOULDBLOCK_def sys_read_def sys_close_def
        insert_Diff_if) simp
qed

text \<open>
  Claim C5. For every record read in full whose class is not key event (sync, misc),
  \<open>ev_read\<close> returns the would-block result; the iteration of the loop leaves it
  \<open>Running\<close> and does nothing but the read: no command is run.
\<close>

theorem C5_other_class:
  assumes "rr_ret r = sizeof_input_event" and "ev_type (rr_ev r) \<noteq> EV_KEY"
  shows "ev_read fd r w = (EV_EBLOCK OR EV_ERROR, sys_read fd r w)
       \<and> decoded (fst (ev_read fd r w)) = Some WouldBlock
       \<and> iteration fd r w = (Running, sys_read fd r w)"
proof -
  from assms(1) have "1 \<le> rr_ret r" by (simp add: sizeof_input_event_def)
  with assms(2) have "ev_read fd r w = (EV_EBLOCK OR EV_ERROR, sys_read fd r w)"
    by (simp add: ev_read_other)
  then show ?thesis
    by (simp add: iteration_def decoded_results handle_event_results)
qed

theorem C5_other_class_witness:
  "ev_read 3 \<lparr>rr_ret = 24, rr_errno = 0,
       rr_ev = \<lparr>ev_type = EV_SYN, ev_code = 0, ev_value = 0\<rparr>\<rparr> initial_world
     = (EV_EBLOCK OR EV_ERROR, \<lparr>open_fds = {0, 1, 2}, trace = [SysRead 3 24]\<rparr>)
 \<and> decoded (fst (ev_read 3 \<lparr>rr_ret = 24, rr_errno = 0,
       rr_ev = \<lparr>ev_type = EV_SYN, ev_code = 0, ev_value = 0\<rparr>\<rparr> initial_world)) = Some WouldBlock
 \<and> iteration 3 \<lparr>rr_ret = 24, rr_errno = 0,
       rr_ev = \<lparr>ev_type = EV_SYN, ev_code = 0, ev_value = 0\<rparr>\<rparr> initial_world
     = (Running, \<lparr>open_fds = {0, 1, 2}, trace = [SysRead 3 24]\<rparr>)"
proof -
  have h: "rr_ret \<lparr>rr_ret = 24, rr_errno = 0,
       rr_ev = \<lparr>ev_type = EV_SYN, ev_code = 0, ev_value = 0\<rparr>\<rparr> = sizeof_input_event"
    "ev_type (rr_ev \<lparr>rr_ret = 24, rr_errno = 0,
       rr_ev = \<lparr>ev_type = EV_SYN, ev_code = 0, ev_value = 0\<rparr>\<rparr>) \<noteq> EV_KEY"
    by (simp_all add: sizeof_input_event_def EV_KEY_def EV_SYN_def)
  show ?thesis
    using C5_other_class [OF h, of 3 initial_world]
    by ((simp (no_asm_use) add: sys_read_def initial_world_def); blast?)
qed

text \<open>
  Claim C8. Every value returned by \<open>ev_read\<close> reads as exactly one of the five results,
  and is the packed integer of that result: a press is the code alone with no flag, a hold
  the code with \<open>EV_HOLD\<close> alone, a release the code with \<open>EV_UP\<close> alone, where the code
  is a 16-bit value in the low 16 bits; the would-block and the fatal results are
  \<open>EV_ERROR\<close> with the error tag \<open>EV_EBLOCK\<close> or \<open>EV_EFILE\<close> in the low bits and no key
  code. At most one of \<open>EV_UP\<close>, \<open>EV_HOLD\<close> and \<open>EV_ERROR\<close> is set, and no bit above
  them (bit 19 and higher) is.
\<close>

theorem C8_result_invariant:
  "(case decoded (fst (ev_read fd r w)) of
      Some (Pressed c) \<Rightarrow> fst (ev_read fd r w) = ucast c
    | Some (Held c) \<Rightarrow> fst (ev_read fd r w) = ucast c OR EV_HOLD
    | Some (Released c) \<Rightarrow> fst (ev_read fd r w) = ucast c OR EV_UP
    | Some WouldBlock \<Rightarrow> fst (ev_read fd r w) = EV_EBLOCK OR EV_ERROR
    | Some Fatal \<Rightarrow> fst (ev_read fd r w) = EV_EFILE OR EV_ERROR
    | None \<Rightarrow> False)
 \<and> length (filter (\<lambda>flag. EV_HASFLAG (fst (ev_read fd r w)) flag \<noteq> 0)
       [EV_UP, EV_HOLD, EV_ERROR]) \<le> 1
 \<and> drop_bit 19 (fst (ev_read fd r w)) = 0"
  by (rule ev_read_cases [where r = r and fd = fd and w = w])
    (simp_all add: decoded_results flags_results error_flags_results hasflag_error
      high_bits_results)

theorem C8_result_invariant_witness:
  "decoded (fst (ev_read 3 (key_record 225 2) initial_world)) = Some (Held 225)
 \<and> fst (ev_read 3 (key_record 225 2) initial_world) = 225 OR EV_HOLD
 \<and> length (filter (\<lambda>flag. EV_HASFLAG (fst (ev_read 3 (key_record 225 2) initial_world)) flag \<noteq> 0)
       [EV_UP, EV_HOLD, EV_ERROR]) \<le> 1
 \<and> drop_bit 19 (fst (ev_read 3 (key_record 225 2) initial_world)) = 0"
proof -
  have d: "decoded (fst (ev_read 3 (key_record 225 2) initial_world)) = Some (Held 225)"
    using decoded_results(2) [of 225] by (simp add: sample_reads)
  note inv = C8_result_invariant [of 3 "key_record 225 2" initial_world]
  from inv d have 1: "fst (ev_read 3 (key_record 225 2) initial_world) = 225 OR EV_HOLD"
    by simp
  from inv have 2: "length (filter
      (\<lambda>flag. EV_HASFLAG (fst (ev_read 3 (key_record 225 2) initial_world)) flag \<noteq> 0)
      [EV_UP, EV_HOLD, EV_ERROR]) \<le> 1"
    by (rule conjunct1 [OF conjunct2])
  from inv have 3: "drop_bit 19 (fst (ev_read 3 (key_record 225 2) initial_world)) = 0"
    by (rule conjunct2 [OF conjunct2])
  from d 1 2 3 show ?thesis by (intro conjI)
qed

text \<open>
  Claim C9. \<open>ev_read\<close> closes the descriptor exactly when it returns the fatal result:
  then the trace has the \<^verbatim>\<open>close\<close> after the read and the descriptor leaves the table
  of open descriptors; on every other result (would-block, press, hold, release) the trace
  has the read alone and the table is unchanged, so that a descriptor that was open stays
  open for the next read.
\<close>

theorem C9_closes_iff_fatal:
  "open_fds (snd (ev_read fd r w)) =
     (if decoded (fst (ev_read fd r w)) = Some Fatal then open_fds w - {fd} else open_fds w)
 \<and> trace (snd (ev_read fd r w)) =
     trace w @ SysRead fd (rr_ret r) #
       (if decoded (fst (ev_read fd r w)) = Some Fatal
        then [SysClose fd (if fd \<in> open_fds w then 0 else - 1)] else [])
 \<and> (fd \<in> open_fds w \<longrightarrow>
      (fd \<in> open_fds (snd (ev_read fd r w)) \<longleftrightarrow>
       decoded (fst (ev_read fd r w)) \<noteq> Some Fatal))"
  by (rule ev_read_cases [where r = r and fd = fd and w = w])
    (simp_all add: decoded_results sys_read_def sys_close_def)

theorem C9_closes_iff_fatal_witness:
  "decoded (fst (ev_read 3 (failed_read ENODEV) \<lparr>open_fds = {0, 1, 2, 3}, trace = []\<rparr>))
     = Some Fatal
 \<and> open_fds (snd (ev_read 3 (failed_read ENODEV) \<lparr>open_fds = {0, 1, 2, 3}, trace = []\<rparr>))
     = {0, 1, 2}
 \<and> trace (snd (ev_read 3 (failed_read ENODEV) \<lparr>open_fds = {0, 1, 2, 3}, trace = []\<rparr>))
     = [SysRead 3 (- 1), SysClose 3 0]
 \<and> decoded (fst (ev_read 3 syn_record \<lparr>open_fds = {0, 1, 2, 3}, trace = []\<rparr>))
     = Some WouldBlock
 \<and> open_fds (snd (ev_read 3 syn_record \<lparr>open_fds = {0, 1, 2, 3}, trace = []\<rparr>))
     = {0, 1, 2, 3}
 \<and> trace (snd (ev_read 3 syn_record \<lparr>open_fds = {0, 1, 2, 3}, trace = []\<rparr>))
     = [SysRead 3 24]"
proof -
  have d: "decoded (fst (ev_read 3 (failed_read ENODEV) \<lparr>open_fds = {0, 1, 2, 3}, trace = []\<rparr>))
     = Some Fatal"
    "decoded (fst (ev_read 3 syn_record \<lparr>open_fds = {0, 1, 2, 3}, trace = []\<rparr>))
     = Some WouldBlock"
    by (simp_all add: sample_reads decoded_results)
  have r: "rr_ret (failed_read ENODEV) = - 1" "rr_ret syn_record = 24"
    by (simp_all add: failed_read_def syn_record_def)
  from C9_closes_iff_fatal [of 3 "failed_read ENODEV" "\<lparr>open_fds = {0, 1, 2, 3}, trace = []\<rparr>"]
    C9_closes_iff_fatal [of 3 syn_record "\<lparr>open_fds = {0, 1, 2, 3}, trace = []\<rparr>"] d r
  show ?thesis
    by (simp add: insert_Diff_if)
qed

subsection \<open>Claims about the dispatch loop\<close>

text \<open>
  Claim C1. For every result of \<open>ev_read\<close> that reads as a key event and is handled by
  the body of the loop: a release of code 224 runs the command that decreases the backlight
  exactly once, a release of code 225 the command that increases it exactly once, a press
  or a hold of 224 or 225 runs nothing, and any other code runs nothing whatever the
  status. The trace grows by exactly the one command, or not at all, and the loop stays
  \<open>Running\<close>.
\<close>

theorem C1_dispatch_table:
  assumes "decoded ev = Some d" and "d \<noteq> WouldBlock" and "d \<noteq> Fatal"
  shows "handle_event ev w =
           (Running, if d = Released 224 then sys_system ''setbacklight %-10'' w
                     else if d = Released 225 then sys_system ''setbacklight %+10'' w
                     else w)
       \<and> trace (snd (handle_event ev w)) =
           trace w @ (if d = Released 224 then [SysSystem ''setbacklight %-10'']
                      else if d = Released 225 then [SysSystem ''setbacklight %+10'']
                      else [])"
  using dispatch_decoded [OF assms, of w] by (simp add: sys_system_def)

theorem C1_dispatch_table_witness:
  "trace (snd (handle_event (224 OR EV_UP) initial_world)) = [SysSystem ''setbacklight %-10'']
 \<and> trace (snd (handle_event (225 OR EV_UP) initial_world)) = [SysSystem ''setbacklight %+10'']
 \<and> trace (snd (handle_event 224 initial_world)) = []
 \<and> trace (snd (handle_event (225 OR EV_HOLD) initial_world)) = []
 \<and> trace (snd (handle_event (30 OR EV_UP) initial_world)) = []"
proof -
  have h: "decoded (224 OR EV_UP) = Some (Released 224)"
    "decoded (225 OR EV_UP) = Some (Released 225)"
    "decoded 224 = Some (Pressed 224)"
    "decoded (225 OR EV_HOLD) = Some (Held 225)"
    "decoded (30 OR EV_UP) = Some (Released 30)"
    using decoded_results(3) [of 224] decoded_results(3) [of 225] decoded_results(1) [of 224]
      decoded_results(2) [of 225] decoded_results(3) [of 30]
    by simp_all
  show ?thesis
    using C1_dispatch_table [OF h(1), of initial_world]
      C1_dispatch_table [OF h(2), of initial_world]
      C1_dispatch_table [OF h(3), of initial_world]
      C1_dispatch_table [OF h(4), of initial_world]
      C1_dispatch_table [OF h(5), of initial_world]
    unfolding initial_world_def by (simp (no_asm_use)) blast
qed

text \<open>
  Claim C6. One iteration of the loop, started \<open>Running\<close>, is \<open>Terminated\<close> exactly
  when \<open>ev_read\<close> returned the fatal result: every result of \<open>ev_read\<close> reads as one of
  the five; on the would-block result the iteration stays \<open>Running\<close> with nothing done
  but the read; on a press, hold or release it stays \<open>Running\<close> after the dispatch table;
  and the loop over the reads \<open>rs\<close> returns exactly when one of them gives the fatal result
  (\<open>fst (ev_read fd r w)\<close> does not depend on \<open>w\<close>).
\<close>

theorem C6_leaves_running_only_on_fatal:
  "decoded (fst (ev_read fd r w)) \<noteq> None
 \<and> (fst (iteration fd r w) = Terminated \<longleftrightarrow> decoded (fst (ev_read fd r w)) = Some Fatal)
 \<and> (decoded (fst (ev_read fd r w)) = Some WouldBlock \<longrightarrow>
       iteration fd r w = (Running, snd (ev_read fd r w)))
 \<and> (\<forall>d. decoded (fst (ev_read fd r w)) = Some d \<and> d \<noteq> WouldBlock \<and> d \<noteq> Fatal \<longrightarrow>
       iteration fd r w =
         (Running,
          if d = Released 224 then sys_system ''setbacklight %-10'' (snd (ev_read fd r w))
          else if d = Released 225 then sys_system ''setbacklight %+10'' (snd (ev_read fd r w))
          else snd (ev_read fd r w)))
 \<and> (loop fd rs w \<noteq> None \<longleftrightarrow>
       (\<exists>r\<in>set rs. decoded (fst (ev_read fd r w)) = Some Fatal))"
proof -
  have a: "decoded (fst (ev_read fd r w)) \<noteq> None"
    by (rule ev_read_cases [where r = r and fd = fd and w = w])
      (simp_all add: decoded_results)
  have b: "fst (iteration fd r w) = Terminated \<longleftrightarrow> decoded (fst (ev_read fd r w)) = Some Fatal"
    by (simp add: iteration_terminated_iff decoded_fatal_iff)
  have c: "decoded (fst (ev_read fd r w)) = Some WouldBlock \<longrightarrow>
       iteration fd r w = (Running, snd (ev_read fd r w))"
    by (rule ev_read_cases [where r = r and fd = fd and w = w])
      (simp_all add: decoded_results iteration_def handle_event_results)
  have d: "iteration fd r w =
         (Running,
          if d = Released 224 then sys_system ''setbacklight %-10'' (snd (ev_read fd r w))
          else if d = Released 225 then sys_system ''setbacklight %+10'' (snd (ev_read fd r w))
          else snd (ev_read fd r w))"
    if "decoded (fst (ev_read fd r w)) = Some d" "d \<noteq> WouldBlock" "d \<noteq> Fatal" for d
    using dispatch_decoded [OF that, of "snd (ev_read fd r w)"]
    by (simp add: iteration_def split_beta)
  have e: "loop fd rs w \<noteq> None \<longleftrightarrow>
       (\<exists>r\<in>set rs. decoded (fst (ev_read fd r w)) = Some Fatal)"
    by (simp only: loop_returns_iff decoded_fatal_iff)
  from a b c d e show ?thesis by blast
qed

theorem C6_leaves_running_only_on_fatal_witness:
  "fst (iteration 3 (failed_read ENODEV) initial_world) = Terminated
 \<and> decoded (fst (ev_read 3 (failed_read ENODEV) initial_world)) = Some Fatal
 \<and> fst (iteration 3 (failed_read EINTR) initial_world) \<noteq> Terminated
 \<and> iteration 3 syn_record initial_world = (Running, snd (ev_read 3 syn_record initial_world))
 \<and> iteration 3 (key_record 225 0) initial_world =
     (Running, sys_system ''setbacklight %+10'' (snd (ev_read 3 (key_record 225 0) initial_world)))
 \<and> loop 3 [key_record 225 0, syn_record, failed_read ENODEV] initial_world \<noteq> None"
proof -
  have d: "decoded (fst (ev_read 3 (failed_read ENODEV) initial_world)) = Some Fatal"
    "decoded (fst (ev_read 3 (failed_read EINTR) initial_world)) = Some WouldBlock"
    "decoded (fst (ev_read 3 syn_record initial_world)) = Some WouldBlock"
    "decoded (fst (ev_read 3 (key_record 225 0) initial_world)) = Some (Released 225)"
    by (simp_all add: sample_reads decoded_results decoded_results(3) [of 225, simplified])
  note fatal = C6_leaves_running_only_on_fatal [of 3 "failed_read ENODEV" initial_world
      "[key_record 225 0, syn_record, failed_read ENODEV]"]
  note intr = C6_leaves_running_only_on_fatal [of 3 "failed_read EINTR" initial_world "[]"]
  note syn = C6_leaves_running_only_on_fatal [of 3 syn_record initial_world "[]"]
  note key = C6_leaves_running_only_on_fatal [of 3 "key_record 225 0" initial_world "[]"]
  from fatal d(1) have 1: "fst (iteration 3 (failed_read ENODEV) initial_world) = Terminated"
    by blast
  from intr d(2) have 2: "fst (iteration 3 (failed_read EINTR) initial_world) \<noteq> Terminated"
    by simp
  from syn d(3) have 3: "iteration 3 syn_record initial_world =
      (Running, snd (ev_read 3 syn_record initial_world))"
    by blast
  from key have "\<forall>d. decoded (fst (ev_read 3 (key_record 225 0) initial_world)) = Some d
      \<and> d \<noteq> WouldBlock \<and> d \<noteq> Fatal \<longrightarrow>
       iteration 3 (key_record 225 0) initial_world =
         (Running,
          if d = Released 224
          then sys_system ''setbacklight %-10'' (snd (ev_read 3 (key_record 225 0) initial_world))
          else if d = Released 225
          then sys_system ''setbacklight %+10'' (snd (ev_read 3 (key_record 225 0) initial_world))
          else snd (ev_read 3 (key_record 225 0) initial_world))"
    by blast
  from this [rule_format, of "Released 225"] d(4)
  have 4: "iteration 3 (key_record 225 0) initial_world =
     (Running, sys_system ''setbacklight %+10'' (snd (ev_read 3 (key_record 225 0) initial_world)))"
    by simp
  have "\<exists>r\<in>set [key_record 225 0, syn_record, failed_read ENODEV].
      decoded (fst (ev_read 3 r initial_world)) = Some Fatal"
    using d(1) by simp
  with fatal have 5: "loop 3 [key_record 225 0, syn_record, failed_read ENODEV] initial_world \<noteq> None"
    by blast
  from 1 d(1) 2 3 4 5 show ?thesis by blast
qed

subsection \<open>Claims about \<open>main\<close>\<close>

text \<open>
  Claim C7. The exit status is \<open>EXIT_FAILURE\<close>, which is not 0, after a message on
  standard error, on each failure of the start: with no argument (the usage message is the
  only call made: no \<^verbatim>\<open>open\<close>), when \<^verbatim>\<open>open\<close> fails, and when \<^verbatim>\<open>daemon\<close> fails.
  After a successful start the process returns exactly when one of the reads is fatal, and
  its exit status is then \<open>EXIT_SUCCESS\<close>, which is 0.
\<close>

theorem C7_exit_status:
  "EXIT_FAILURE \<noteq> 0 \<and> EXIT_SUCCESS = 0
 \<and> (length argv < 2 \<longrightarrow>
      main argv e =
        Some (EXIT_FAILURE, \<lparr>open_fds = {0, 1, 2}, trace = [SysStderr usage_msg]\<rparr>))
 \<and> (2 \<le> length argv \<and> open_ret e < 0 \<longrightarrow>
      main argv e =
        Some (EXIT_FAILURE,
          \<lparr>open_fds = {0, 1, 2},
           trace = [SysOpen (argv ! 1) (open_ret e), SysStderr open_msg]\<rparr>))
 \<and> (2 \<le> length argv \<and> 0 \<le> open_ret e \<and> daemon_ret e \<noteq> 0 \<longrightarrow>
      main argv e =
        Some (EXIT_FAILURE,
          \<lparr>open_fds = insert (open_ret e) {0, 1, 2},
           trace = [SysOpen (argv ! 1) (open_ret e), SysDaemon (daemon_ret e),
                    SysStderr daemon_msg]\<rparr>))
 \<and> (2 \<le> length argv \<and> 0 \<le> open_ret e \<and> daemon_ret e = 0 \<longrightarrow>
      (main argv e \<noteq> None \<longleftrightarrow> (\<exists>r\<in>set (reads e). fatal_read r)) \<and>
      (\<forall>st w. main argv e = Some (st, w) \<longrightarrow> st = EXIT_SUCCESS))"
proof -
  have codes: "EXIT_FAILURE \<noteq> 0 \<and> EXIT_SUCCESS = 0"
    by (simp add: EXIT_FAILURE_def EXIT_SUCCESS_def)
  have run: "(main argv e \<noteq> None \<longleftrightarrow> (\<exists>r\<in>set (reads e). fatal_read r)) \<and>
      (\<forall>st w. main argv e = Some (st, w) \<longrightarrow> st = EXIT_SUCCESS)"
    if "2 \<le> length argv" "0 \<le> open_ret e" "daemon_ret e = 0"
    using loop_returns_iff [of "open_ret e" "reads e" "started argv e"]
    by (auto simp add: main_started [OF that] split: option.splits)
  from codes run show ?thesis
    by (simp add: main_no_argument main_open_failed main_daemon_failed)
qed

theorem C7_exit_status_witness:
  "main [''managerui''] \<lparr>open_ret = 3, daemon_ret = 0, reads = scenario\<rparr> =
     Some (EXIT_FAILURE, \<lparr>open_fds = {0, 1, 2}, trace = [SysStderr usage_msg]\<rparr>)
 \<and> main [''managerui'', ''/dev/input/event3'']
       \<lparr>open_ret = - 1, daemon_ret = 0, reads = scenario\<rparr> =
     Some (EXIT_FAILURE,
       \<lparr>open_fds = {0, 1, 2},
        trace = [SysOpen ''/dev/input/event3'' (- 1), SysStderr open_msg]\<rparr>)
 \<and> main [''managerui'', ''/dev/input/event3'']
       \<lparr>open_ret = 3, daemon_ret = - 1, reads = scenario\<rparr> =
     Some (EXIT_FAILURE,
       \<lparr>open_fds = {3, 0, 1, 2},
        trace = [SysOpen ''/dev/input/event3'' 3, SysDaemon (- 1), SysStderr daemon_msg]\<rparr>)
 \<and> main [''managerui'', ''/dev/input/event3'']
       \<lparr>open_ret = 3, daemon_ret = 0, reads = scenario\<rparr> \<noteq> None
 \<and> fst (the (main [''managerui'', ''/dev/input/event3'']
       \<lparr>open_ret = 3, daemon_ret = 0, reads = scenario\<rparr>)) = EXIT_SUCCESS"
proof -
  note a = C7_exit_status [of "[''managerui'']"
      "\<lparr>open_ret = 3, daemon_ret = 0, reads = scenario\<rparr>"]
  note b = C7_exit_status [of "[''managerui'', ''/dev/input/event3'']"
      "\<lparr>open_ret = - 1, daemon_ret = 0, reads = scenario\<rparr>"]
  note c = C7_exit_status [of "[''managerui'', ''/dev/input/event3'']"
      "\<lparr>open_ret = 3, daemon_ret = - 1, reads = scenario\<rparr>"]
  note d = C7_exit_status [of "[''managerui'', ''/dev/input/event3'']"
      "\<lparr>open_ret = 3, daemon_ret = 0, reads = scenario\<rparr>"]
  from a have 1: "main [''managerui''] \<lparr>open_ret = 3, daemon_ret = 0, reads = scenario\<rparr> =
     Some (EXIT_FAILURE, \<lparr>open_fds = {0, 1, 2}, trace = [SysStderr usage_msg]\<rparr>)"
    by simp
  from b have 2: "main [''managerui'', ''/dev/input/event3'']
       \<lparr>open_ret = - 1, daemon_ret = 0, reads = scenario\<rparr> =
     Some (EXIT_FAILURE,
       \<lparr>open_fds = {0, 1, 2},
        trace = [SysOpen ''/dev/input/event3'' (- 1), SysStderr open_msg]\<rparr>)"
    by simp
  from c have 3: "main [''managerui'', ''/dev/input/event3'']
       \<lparr>open_ret = 3, daemon_ret = - 1, reads = scenario\<rparr> =
     Some (EXIT_FAILURE,
       \<lparr>open_fds = {3, 0, 1, 2},
        trace = [SysOpen ''/dev/input/event3'' 3, SysDaemon (- 1), SysStderr daemon_msg]\<rparr>)"
    by simp
  have "\<exists>r\<in>set scenario. fatal_read r"
    by (simp add: scenario_def sample_fatal)
  with d have 4: "main [''managerui'', ''/dev/input/event3'']
       \<lparr>open_ret = 3, daemon_ret = 0, reads = scenario\<rparr> \<noteq> None"
    by simp
  with d have 5: "fst (the (main [''managerui'', ''/dev/input/event3'']
       \<lparr>open_ret = 3, daemon_ret = 0, reads = scenario\<rparr>)) = EXIT_SUCCESS"
    by (cases "main [''managerui'', ''/dev/input/event3'']
       \<lparr>open_ret = 3, daemon_ret = 0, reads = scenario\<rparr>") auto
  from 1 2 3 4 5 show ?thesis by (intro conjI)
qed

text \<open>
  Claim C10. Whenever \<open>main\<close> returns after a successful start, its trace ends with the
  failed read, the \<^verbatim>\<open>close\<close> made inside \<open>ev_read\<close>, which released the descriptor
  (return value 0), and the \<^verbatim>\<open>close\<close> of \<open>ev_close\<close> on the same descriptor, which
  found it already released (return value -1).
\<close>

theorem C10_double_close:
  assumes "2 \<le> length argv" and "0 \<le> open_ret e" and "daemon_ret e = 0"
    and "main argv e = Some (st, w)"
  shows "st = EXIT_SUCCESS
       \<and> (\<exists>pre n. n < 1 \<and>
            trace w = pre @ [SysRead (open_ret e) n, SysClose (open_ret e) 0,
                             SysClose (open_ret e) (- 1)])
       \<and> open_ret e \<notin> open_fds w"
proof -
  from assms obtain w3 where l: "loop (open_ret e) (reads e) (started argv e) = Some w3"
    and st: "st = EXIT_SUCCESS" and w: "w = ev_close (open_ret e) w3"
    by (auto simp add: main_started split: option.splits)
  have "open_ret e \<in> open_fds (started argv e)" by (simp add: started_def)
  from loop_returns_closed [OF l this]
  obtain pre n where fds: "open_fds w3 = open_fds (started argv e) - {open_ret e}"
    and n: "n < 1" and tr: "trace w3 = pre @ [SysRead (open_ret e) n, SysClose (open_ret e) 0]"
    by blast
  from fds tr w have "trace w = pre @ [SysRead (open_ret e) n, SysClose (open_ret e) 0,
      SysClose (open_ret e) (- 1)]" and "open_ret e \<notin> open_fds w"
    by (simp_all add: ev_close_def sys_close_def)
  with st n show ?thesis by blast
qed

theorem C10_double_close_witness:
  "main [''managerui'', ''/dev/input/event3'']
     \<lparr>open_ret = 3, daemon_ret = 0, reads = scenario\<rparr>
   = Some (EXIT_SUCCESS,
       \<lparr>open_fds = {0, 1, 2},
        trace = [SysOpen ''/dev/input/event3'' 3, SysDaemon 0,
                 SysRead 3 24, SysRead 3 24, SysRead 3 24,
                 SysRead 3 24, SysSystem ''setbacklight %+10'',
                 SysRead 3 24, SysRead 3 24, SysRead 3 24,
                 SysRead 3 (- 1), SysClose 3 0, SysClose 3 (- 1)]\<rparr>)
 \<and> (\<exists>pre n. n < 1 \<and>
       [SysOpen ''/dev/input/event3'' 3, SysDaemon 0,
        SysRead 3 24, SysRead 3 24, SysRead 3 24,
        SysRead 3 24, SysSystem ''setbacklight %+10'',
        SysRead 3 24, SysRead 3 24, SysRead 3 24,
        SysRead 3 (- 1), SysClose 3 0, SysClose 3 (- 1)]
       = pre @ [SysRead 3 n, SysClose 3 0, SysClose 3 (- 1)])"
proof -
  have h: "2 \<le> length [''managerui'', ''/dev/input/event3'']"
    "0 \<le> open_ret \<lparr>open_ret = 3, daemon_ret = 0, reads = scenario\<rparr>"
    "daemon_ret \<lparr>open_ret = 3, daemon_ret = 0, reads = scenario\<rparr> = 0"
    by simp_all
  from C10_double_close [OF h main_scenario] main_scenario show ?thesis
    by simp
qed

end
